theory Spec2Isabelle
  imports Main "HOL-Library.Word"
begin

section \<open>Data model of the container manager\<close>

text \<open>
  The Go package \<open>container\<close> (manager.go) keeps its state in a \<open>Manager\<close> struct and
  reports failures through Go \<open>error\<close> values. The embedding keeps the struct fields as
  record fields, the registry \<open>map[string]*Container\<close> as a partial map, and every
  \<open>return nil, err\<close> as the \<open>Inl\<close> branch of a sum. Locks are left out: the model is
  the sequential behaviour of each method.
\<close>

subsection \<open>Errors\<close>

datatype errno = EEXIST | ENOTEMPTY | ENOENT | EACCES | EROFS

text \<open>
  One constructor for each error the package builds itself, in the order in which
  manager.go builds them, and two for errors handed over by collaborators:
  \<^item> \<open>MissingApp\<close>: \<open>fmt.Errorf("the manifest must specify an App")\<close>
  \<^item> \<open>InternalServerError\<close>: \<open>fmt.Errorf("Internal server error")\<close>
  \<^item> \<open>NamespaceRequired iso ns\<close>:
    \<open>fmt.Errorf("the manifest %s isolator must require the %s namespace", iso, ns)\<close>
  \<^item> \<open>FailedToCheckCgroups e\<close>: \<open>fmt.Errorf("failed to check cgroups: %v", e)\<close>
  \<^item> \<open>InvalidVolumeName\<close>: \<open>fmt.Errorf("invalid characters present in volume name")\<close>
  \<^item> \<open>PathError op path e\<close>: what the \<open>os\<close> package returns for a failed system call
  \<^item> \<open>LibraryError msg\<close>: any other error of a collaborator.
\<close>

datatype error =
    MissingApp
  | InternalServerError
  | NamespaceRequired string string
  | FailedToCheckCgroups error
  | InvalidVolumeName
  | PathError string string errno
  | LibraryError string

text \<open>\<open>os.IsExist\<close>: the error reports that a file or directory already exists.\<close>

fun os_IsExist :: "error \<Rightarrow> bool" where
  "os_IsExist (PathError _ _ e) = (e = EEXIST \<or> e = ENOTEMPTY)"
| "os_IsExist _ = False"

subsection \<open>Image manifests and the namespaces isolator\<close>

text \<open>
  Modelled from the spec: the type \<open>kschema.LinuxNamespaceValue\<close> and its constant
  \<open>kschema.LinuxNamespaceHost\<close> are declared outside src/. The spec only distinguishes
  the host-shared setting from every other setting of a namespace kind.
\<close>

datatype LinuxNamespaceValue = LinuxNamespaceHost | LinuxNamespaceOther string

text \<open>
  Modelled from the spec: \<open>kschema.LinuxNamespaces\<close> is declared outside src/.
  \<open>Validate\<close> reads it through the five accessor methods \<open>IPC\<close>, \<open>Net\<close>, \<open>PID\<close>,
  \<open>User\<close> and \<open>UTS\<close>, each giving the setting of one namespace kind.
\<close>

record LinuxNamespaces =
  IPC :: LinuxNamespaceValue
  Net :: LinuxNamespaceValue
  PID :: LinuxNamespaceValue
  User :: LinuxNamespaceValue
  UTS :: LinuxNamespaceValue

text \<open>
  Modelled from the spec: the isolator name \<open>kschema.LinuxNamespacesName\<close> is declared
  outside src/; no theorem below depends on its spelling.
\<close>

definition LinuxNamespacesName :: string where
  "LinuxNamespacesName = ''os/linux/namespaces''"

text \<open>
  An isolator's \<open>Value()\<close> is an interface value; \<open>Validate\<close> only asks whether its
  dynamic type is \<open>*kschema.LinuxNamespaces\<close>.
\<close>

datatype IsolatorValue = LinuxNamespacesValue LinuxNamespaces | OtherIsolatorValue string

record Isolator =
  Isolator_Name :: string
  Isolator_Value :: IsolatorValue

record App =
  App_Exec :: "string list"
  App_Isolators :: "Isolator list"

record ImageManifest =
  ImageManifest_Name :: string
  ImageManifest_Labels :: "(string \<times> string) list"
  ImageManifest_App :: "App option"
  ImageManifest_Annotations :: "(string \<times> string) list"

text \<open>
  \<open>Isolators.GetByName\<close> of the appc schema library: the last isolator of the list
  with the given name, \<open>nil\<close> when there is none.
\<close>

fun GetByName :: "Isolator list \<Rightarrow> string \<Rightarrow> Isolator option" where
  "GetByName [] name = None"
| "GetByName (i # is) name =
     (case GetByName is name of
        Some j \<Rightarrow> Some j
      | None \<Rightarrow> (if Isolator_Name i = name then Some i else None))"

subsection \<open>Pod manifests and containers\<close>

record Hash =
  Hash_typ :: string
  Hash_Val :: string

record RuntimeImage =
  RuntimeImage_ID :: Hash
  RuntimeImage_Name :: "string option"
  RuntimeImage_Labels :: "(string \<times> string) list"

record RuntimeApp =
  RuntimeApp_Name :: string
  RuntimeApp_App :: "App option"
  RuntimeApp_Image :: RuntimeImage

record PodManifest =
  PodManifest_ACVersion :: string
  PodManifest_ACKind :: string
  PodManifest_Apps :: "RuntimeApp list"
  PodManifest_Annotations :: "(string \<times> string) list"

text \<open>A logray logger, as far as the manager uses it: the fields attached to it.\<close>

record Logger =
  Logger_fields :: "string \<rightharpoonup> string"

definition logray_New :: Logger where
  "logray_New = \<lparr>Logger_fields = Map.empty\<rparr>"

definition Clone :: "Logger \<Rightarrow> Logger" where
  "Clone l = l"

definition SetField :: "Logger \<Rightarrow> string \<Rightarrow> string \<Rightarrow> Logger" where
  "SetField l k v = l\<lparr>Logger_fields := (Logger_fields l)(k \<mapsto> v)\<rparr>"

text \<open>
  The fields \<open>Create\<close> fills in its \<open>Container\<close> literal. The back pointer
  \<open>manager\<close> and the channel \<open>waitch\<close> carry no data of their own and are left out.
\<close>

record Container =
  log :: Logger
  uuid :: string
  imageHash :: string
  image :: ImageManifest
  pod :: PodManifest

subsection \<open>The manager\<close>

record Options =
  ParentCgroupName :: string
  ContainerDirectory :: string
  VolumeDirectory :: string
  RequiredNamespaces :: "string list"

datatype Cgroup = CgroupHandle string

text \<open>
  \<open>'im\<close> and \<open>'nm\<close> stand for the \<open>stage1.ImageManager\<close> and
  \<open>stage1.NetworkManager\<close> interface values the manager only stores.
\<close>

record ('im, 'nm) Manager =
  Log :: Logger
  Options :: Options
  imageManager :: 'im
  networkManager :: 'nm
  cgroup :: Cgroup
  containers :: "string \<rightharpoonup> Container"
  HostSocketFile :: string

section \<open>Isolation-policy validation\<close>

text \<open>
  The map literal \<open>checks\<close> of \<open>Validate\<close>: namespace kind to accessor, here to the
  value the accessor returns.
\<close>

definition checks :: "LinuxNamespaces \<Rightarrow> string \<rightharpoonup> LinuxNamespaceValue" where
  "checks niso = map_of
     [(''ipc'', IPC niso),
      (''net'', Net niso),
      (''pid'', PID niso),
      (''user'', User niso),
      (''uts'', UTS niso)]"

text \<open>The loop \<open>for _, ns := range manager.Options.RequiredNamespaces\<close>.\<close>

fun Validate_loop :: "LinuxNamespaces \<Rightarrow> string list \<Rightarrow> error option" where
  "Validate_loop niso [] = None"
| "Validate_loop niso (ns # rest) =
     (case checks niso ns of
        None \<Rightarrow> Some InternalServerError
      | Some v \<Rightarrow>
          if v = LinuxNamespaceHost then Some (NamespaceRequired LinuxNamespacesName ns)
          else Validate_loop niso rest)"

text \<open>\<open>Manager.Validate\<close>; \<open>None\<close> is Go's \<open>nil\<close> error.\<close>

definition Validate :: "('im, 'nm) Manager \<Rightarrow> ImageManifest \<Rightarrow> error option" where
  "Validate manager imageManifest =
     (case ImageManifest_App imageManifest of
        None \<Rightarrow> Some MissingApp
      | Some app \<Rightarrow>
          (case GetByName (App_Isolators app) LinuxNamespacesName of
             None \<Rightarrow> None
           | Some isolator \<Rightarrow>
               (case Isolator_Value isolator of
                  LinuxNamespacesValue niso \<Rightarrow>
                    Validate_loop niso (RequiredNamespaces (Options manager))
                | OtherIsolatorValue _ \<Rightarrow> None)))"

section \<open>Collaborators outside the package\<close>

text \<open>
  What manager.go calls but does not define, taken as parameters, so that every theorem
  holds for whatever these functions compute. \<open>'h\<close> is the state of the host (cgroup
  hierarchy and filesystem) that \<open>cgroups.New\<close> and \<open>os.Mkdir\<close> read and change;
  \<open>cgroups.CheckCgroups\<close> only reads it.
\<close>

record 'h Deps =
  cgroups_CheckCgroups :: "'h \<Rightarrow> error option"
  cgroups_New :: "string \<Rightarrow> 'h \<Rightarrow> (error + Cgroup) \<times> 'h"
  types_NewHash :: "string \<Rightarrow> error + Hash"
  convertACIdentifierToACName :: "string \<Rightarrow> error + string"
  kschema_BlankPodManifest :: PodManifest
  ValidACName_MatchString :: "string \<Rightarrow> bool"
  filepath_Join :: "string \<Rightarrow> string \<Rightarrow> string"
  os_Mkdir :: "string \<Rightarrow> nat \<Rightarrow> 'h \<Rightarrow> error option \<times> 'h"

section \<open>Construction\<close>

text \<open>\<open>NewManager\<close>: the result and the host as the two cgroup calls leave it.\<close>

definition NewManager ::
  "'h Deps \<Rightarrow> 'im \<Rightarrow> 'nm \<Rightarrow> Options \<Rightarrow> 'h \<Rightarrow> (error + ('im, 'nm) Manager) \<times> 'h" where
  "NewManager D imageManager' networkManager' opts host =
     (case cgroups_CheckCgroups D host of
        Some err \<Rightarrow> (Inl (FailedToCheckCgroups err), host)
      | None \<Rightarrow>
          (case cgroups_New D (ParentCgroupName opts) host of
             (Inl err, host') \<Rightarrow> (Inl err, host')
           | (Inr cg, host') \<Rightarrow>
               (Inr \<lparr>Log = logray_New,
                     Options = opts,
                     imageManager = imageManager',
                     networkManager = networkManager',
                     cgroup = cg,
                     containers = Map.empty,
                     HostSocketFile = []\<rparr>,
                host')))"

section \<open>Admission\<close>

text \<open>
  Modelled from the spec: \<open>Container.start\<close> is defined outside src/. By section 4.3,
  step 8, it only begins the asynchronous startup sequence and creation returns right
  after registration, so nothing of the manager has changed when \<open>start\<close> returns.
\<close>

definition start :: "Container \<Rightarrow> ('im, 'nm) Manager \<Rightarrow> ('im, 'nm) Manager" where
  "start container manager = manager"

text \<open>
  \<open>Manager.Create\<close>. The argument \<open>u\<close> is the string \<open>uuid.Variant4().String()\<close>
  draws. The result is Go's pair (container, error) as a sum, next to the manager as
  the call leaves it. The line \<open>Debugf\<close> writes to the log changes neither.
\<close>

definition Create ::
  "'h Deps \<Rightarrow> ('im, 'nm) Manager \<Rightarrow> string \<Rightarrow> string \<Rightarrow> ImageManifest \<Rightarrow> string
     \<Rightarrow> (error + Container) \<times> ('im, 'nm) Manager" where
  "Create D manager u name imageManifest imageHash' =
     (case Validate manager imageManifest of
        Some err \<Rightarrow> (Inl err, manager)
      | None \<Rightarrow>
          (case types_NewHash D imageHash' of
             Inl err \<Rightarrow> (Inl err, manager)
           | Inr hash \<Rightarrow>
               (case (if name = []
                      then convertACIdentifierToACName D (ImageManifest_Name imageManifest)
                      else Inr name) of
                  Inl err \<Rightarrow> (Inl err, manager)
                | Inr name' \<Rightarrow>
                    (let container =
                       \<lparr>log = SetField (Clone (Log manager)) ''container'' u,
                        uuid = u,
                        imageHash = imageHash',
                        image = imageManifest,
                        pod = (kschema_BlankPodManifest D)
                          \<lparr>PodManifest_Apps :=
                             [\<lparr>RuntimeApp_Name = name',
                               RuntimeApp_App = ImageManifest_App imageManifest,
                               RuntimeApp_Image =
                                 \<lparr>RuntimeImage_ID = hash,
                                  RuntimeImage_Name = Some (ImageManifest_Name imageManifest),
                                  RuntimeImage_Labels = ImageManifest_Labels imageManifest\<rparr>\<rparr>],
                           PodManifest_Annotations := ImageManifest_Annotations imageManifest\<rparr>\<rparr>;
                         manager' = manager
                           \<lparr>containers := (containers manager)(uuid container \<mapsto> container)\<rparr>
                     in (Inr container, start container manager')))))"

section \<open>Registry\<close>

text \<open>\<open>Manager.remove\<close>: Go's \<open>delete\<close> on the registry map.\<close>

definition remove :: "('im, 'nm) Manager \<Rightarrow> Container \<Rightarrow> ('im, 'nm) Manager" where
  "remove manager container =
     manager\<lparr>containers := (containers manager)(uuid container := None)\<rparr>"

text \<open>\<open>Manager.Container\<close>: the registered container of that UUID, or \<open>nil\<close>.\<close>

definition Container_of :: "('im, 'nm) Manager \<Rightarrow> string \<Rightarrow> Container option" where
  "Container_of manager uuid' = containers manager uuid'"

section \<open>Swapping the container directory\<close>

text \<open>
  The callback \<open>f func()\<close> is a closure over the program state: here a function on the
  manager that says how it ended and what it left behind. The deferred assignment
  runs on both ways out, and a panic goes on to the caller after it.
\<close>

datatype outcome = Returned | Panicked

definition SwapDirectory ::
  "('im, 'nm) Manager \<Rightarrow> string \<Rightarrow> (('im, 'nm) Manager \<Rightarrow> outcome \<times> ('im, 'nm) Manager)
     \<Rightarrow> outcome \<times> ('im, 'nm) Manager" where
  "SwapDirectory manager containerDirectory f =
     (let dir = ContainerDirectory (Options manager);
          manager1 = manager\<lparr>Options := (Options manager)\<lparr>ContainerDirectory := containerDirectory\<rparr>\<rparr>
      in case f manager1 of
           (r, manager2) \<Rightarrow>
             (r, manager2\<lparr>Options := (Options manager2)\<lparr>ContainerDirectory := dir\<rparr>\<rparr>))"

section \<open>Volume paths\<close>

text \<open>\<open>Manager.getVolumePath\<close>; \<open>493\<close> is the mode \<open>0755\<close>.\<close>

definition getVolumePath ::
  "'h Deps \<Rightarrow> ('im, 'nm) Manager \<Rightarrow> string \<Rightarrow> 'h \<Rightarrow> (error + string) \<times> 'h" where
  "getVolumePath D manager name host =
     (if \<not> ValidACName_MatchString D name then (Inl InvalidVolumeName, host)
      else
        (let volumePath = filepath_Join D (VolumeDirectory (Options manager)) name
         in case os_Mkdir D volumePath 493 host of
              (Some err, host') \<Rightarrow>
                if \<not> os_IsExist err then (Inl err, host') else (Inr volumePath, host')
            | (None, host') \<Rightarrow> (Inr volumePath, host')))"

section \<open>Random interface names\<close>

definition alphaNumericalCharacters :: string where
  "alphaNumericalCharacters =
     ''0123456789ABCDEFGHIJKLMNOPQRSTUVWXYZabcdefghijklmnopqrstuvwxyz''"

text \<open>
  A Go string is indexed by byte, and \<open>string(b)\<close> reads a byte slice back as a string.
\<close>

definition byte_at :: "string \<Rightarrow> nat \<Rightarrow> 8 word" where
  "byte_at s i = of_char (s ! i)"

definition string_of_bytes :: "8 word list \<Rightarrow> string" where
  "string_of_bytes b = map (\<lambda>w. char_of (unat w)) b"

text \<open>
  \<open>rand.Read(b)\<close> overwrites the whole slice; \<open>rnd i\<close> is the byte it leaves at index
  \<open>i\<close>.
\<close>

definition rand_Read :: "(nat \<Rightarrow> 8 word) \<Rightarrow> 8 word list \<Rightarrow> 8 word list" where
  "rand_Read rnd b = map rnd [0..<length b]"

text \<open>The loop \<open>for i, c := range b\<close>, from index \<open>i\<close> on.\<close>

function random_loop :: "nat \<Rightarrow> 8 word list \<Rightarrow> 8 word list" where
  "random_loop i b =
     (if i < length b
      then random_loop (Suc i)
             (b[i := byte_at alphaNumericalCharacters
                       (unat ((b ! i) mod of_nat (length alphaNumericalCharacters)))])
      else b)"
  by pat_completeness auto
termination
  by (relation "measure (\<lambda>(i, b). length b - i)") auto

text \<open>
  \<open>random\<close>; \<open>None\<close> is the panic of \<open>make([]byte, n)\<close> on a negative length.
\<close>

definition random :: "(nat \<Rightarrow> 8 word) \<Rightarrow> int \<Rightarrow> string option" where
  "random rnd n =
     (let n' = (if n > 32 then 32 else n)
      in if n' < 0 then None
         else Some (string_of_bytes
                      (random_loop 0 (rand_Read rnd (replicate (nat n') 0)))))"

section \<open>A concrete host and concrete manifests\<close>

text \<open>
  One instance of the collaborators, for running the definitions on concrete inputs: a
  host that is the list of its directories, a recogniser for lower-case names in which
  single dashes separate alphanumeric groups, a name normaliser that keeps the last
  path segment, and a hash parser that asks for \<open>sha512-\<close> and a value.
\<close>


definition lower_alnum :: "char \<Rightarrow> bool" where
  "lower_alnum c = (c \<in> set ''abcdefghijklmnopqrstuvwxyz0123456789'')"

fun acname_run :: "bool \<Rightarrow> string \<Rightarrow> bool" where
  "acname_run prev [] = prev"
| "acname_run prev (c # cs) =
     (if lower_alnum c then acname_run True cs
      else if c = CHR ''-'' \<and> prev then acname_run False cs
      else False)"

definition last_segment :: "string \<Rightarrow> string" where
  "last_segment s = rev (takeWhile (\<lambda>c. c \<noteq> CHR ''/'') (rev s))"

definition parent_dir :: "string \<Rightarrow> string" where
  "parent_dir s = rev (drop 1 (dropWhile (\<lambda>c. c \<noteq> CHR ''/'') (rev s)))"

definition sample_NewHash :: "string \<Rightarrow> error + Hash" where
  "sample_NewHash s =
     (let t = takeWhile (\<lambda>c. c \<noteq> CHR ''-'') s; v = drop (Suc (length t)) s
      in if t = ''sha512'' \<and> v \<noteq> [] \<and> CHR ''-'' \<notin> set v
         then Inr \<lparr>Hash_typ = t, Hash_Val = v\<rparr>
         else Inl (LibraryError ''badly formatted hash string''))"

definition sample_deps :: "string list Deps" where
  "sample_deps =
     \<lparr>cgroups_CheckCgroups =
        (\<lambda>host. if ''/sys/fs/cgroup'' \<in> set host then None
                 else Some (LibraryError ''cgroups are not mounted'')),
      cgroups_New =
        (\<lambda>name host.
           if name = [] then (Inl (LibraryError ''empty cgroup name''), host)
           else (Inr (CgroupHandle name), (''/sys/fs/cgroup/'' @ name) # host)),
      types_NewHash = sample_NewHash,
      convertACIdentifierToACName =
        (\<lambda>s. if acname_run False (last_segment s) then Inr (last_segment s)
              else Inl (LibraryError ''invalid name'')),
      kschema_BlankPodManifest =
        \<lparr>PodManifest_ACVersion = ''0.7.0'', PodManifest_ACKind = ''PodManifest'',
         PodManifest_Apps = [], PodManifest_Annotations = []\<rparr>,
      ValidACName_MatchString = acname_run False,
      filepath_Join = (\<lambda>d n. d @ ''/'' @ n),
      os_Mkdir =
        (\<lambda>p mode host.
           if p \<in> set host then (Some (PathError ''mkdir'' p EEXIST), host)
           else if parent_dir p \<in> set host then (None, p # host)
           else (Some (PathError ''mkdir'' p ENOENT), host))\<rparr>"

definition isolated_namespaces :: LinuxNamespaces where
  "isolated_namespaces =
     \<lparr>IPC = LinuxNamespaceOther [], Net = LinuxNamespaceOther [], PID = LinuxNamespaceOther [],
      User = LinuxNamespaceOther [], UTS = LinuxNamespaceOther []\<rparr>"

definition namespaces_isolator :: "LinuxNamespaces \<Rightarrow> Isolator" where
  "namespaces_isolator niso =
     \<lparr>Isolator_Name = LinuxNamespacesName, Isolator_Value = LinuxNamespacesValue niso\<rparr>"

definition sample_app :: "Isolator list \<Rightarrow> App" where
  "sample_app isolators = \<lparr>App_Exec = [''/bin/app''], App_Isolators = isolators\<rparr>"

definition sample_manifest :: "App option \<Rightarrow> ImageManifest" where
  "sample_manifest a =
     \<lparr>ImageManifest_Name = ''example.com/app'',
      ImageManifest_Labels = [(''version'', ''1.0'')],
      ImageManifest_App = a,
      ImageManifest_Annotations = [(''created-by'', ''kurma'')]\<rparr>"

definition sample_options :: "string list \<Rightarrow> Options" where
  "sample_options R =
     \<lparr>ParentCgroupName = ''kurma'', ContainerDirectory = ''/var/kurma/containers'',
      VolumeDirectory = ''/var/kurma/volumes'', RequiredNamespaces = R\<rparr>"

definition sample_manager :: "string list \<Rightarrow> (unit, unit) Manager" where
  "sample_manager R =
     \<lparr>Log = logray_New, Options = sample_options R, imageManager = (), networkManager = (),
      cgroup = CgroupHandle ''kurma'', containers = Map.empty, HostSocketFile = []\<rparr>"

definition sample_container :: "string \<Rightarrow> Container" where
  "sample_container u =
     \<lparr>log = logray_New, uuid = u, imageHash = ''sha512-abc'',
      image = sample_manifest None,
      pod = kschema_BlankPodManifest sample_deps\<rparr>"

section \<open>Properties of validation\<close>


lemma dom_checks: "dom (checks niso) = {''ipc'', ''net'', ''pid'', ''user'', ''uts''}"
  by (auto simp: checks_def split: if_splits)

lemma checks_None_iff:
  "checks niso ns = None \<longleftrightarrow> ns \<notin> {''ipc'', ''net'', ''pid'', ''user'', ''uts''}"
  using dom_checks [of niso] by (metis domIff)

lemma Validate_loop_None_iff:
  "Validate_loop niso R = None \<longleftrightarrow>
     (\<forall>ns \<in> set R. \<exists>v. checks niso ns = Some v \<and> v \<noteq> LinuxNamespaceHost)"
  by (induction R) (auto split: option.splits)

lemma Validate_loop_fails_iff:
  "Validate_loop niso R \<noteq> None \<longleftrightarrow>
     (\<exists>ns \<in> set R. checks niso ns = None \<or> checks niso ns = Some LinuxNamespaceHost)"
  unfolding Validate_loop_None_iff by (metis option.exhaust option.distinct(1) option.inject)

lemma Validate_loop_append:
  "\<forall>k \<in> set pre. \<exists>v. checks niso k = Some v \<and> v \<noteq> LinuxNamespaceHost \<Longrightarrow>
   Validate_loop niso (pre @ rest) = Validate_loop niso rest"
  by (induction pre) auto

lemma Validate_loop_host_prefix:
  "\<forall>k \<in> set pre. checks niso k \<noteq> None \<Longrightarrow>
   \<exists>k \<in> set pre. checks niso k = Some LinuxNamespaceHost \<Longrightarrow>
   \<exists>k \<in> set pre. Validate_loop niso (pre @ rest) = Some (NamespaceRequired LinuxNamespacesName k)"
  by (induction pre) (auto split: option.splits)

lemma Validate_declared:
  "ImageManifest_App m = Some a \<Longrightarrow>
   GetByName (App_Isolators a) LinuxNamespacesName = Some i \<Longrightarrow>
   Isolator_Value i = LinuxNamespacesValue niso \<Longrightarrow>
   Validate mgr m = Validate_loop niso (RequiredNamespaces (Options mgr))"
  by (simp add: Validate_def)

lemma Validate_omitted:
  "ImageManifest_App m = Some a \<Longrightarrow>
   GetByName (App_Isolators a) LinuxNamespacesName = None \<Longrightarrow>
   Validate mgr m = None"
  by (simp add: Validate_def)

lemma Validate_MissingApp:
  "ImageManifest_App m = None \<Longrightarrow> Validate mgr m = Some MissingApp"
  by (simp add: Validate_def)

lemmas sample_simps =
  sample_manifest_def sample_app_def namespaces_isolator_def isolated_namespaces_def
  sample_manager_def sample_options_def

text \<open>
  C1, as stated, fails: with the required kind \<open>mnt\<close>, which is not a key of \<open>checks\<close>,
  \<open>Validate\<close> rejects a manifest whose namespaces isolator sets no kind to
  host-shared.
\<close>

theorem Validate_fails_iff_counterexample:
  "Validate (sample_manager [''mnt''])
     (sample_manifest (Some (sample_app [namespaces_isolator isolated_namespaces])))
     = Some InternalServerError
   \<and> GetByName [namespaces_isolator isolated_namespaces] LinuxNamespacesName
     = Some (namespaces_isolator isolated_namespaces)
   \<and> \<not> (\<exists>ns \<in> set [''mnt'']. checks isolated_namespaces ns = Some LinuxNamespaceHost)"
  by (simp add: sample_simps Validate_def checks_def)

text \<open>
  C1 (amended): for a manifest with an App whose namespaces isolator carries
  \<open>LinuxNamespaces\<close> values, \<open>Validate\<close> returns an error if and only if some required
  kind is not one of ipc, net, pid, user, uts or is set to host-shared in the isolator;
  a manifest with an App and no namespaces isolator is accepted whatever is required.
\<close>

theorem Validate_fails_iff:
  assumes "ImageManifest_App m = Some a"
  shows "(\<forall>i niso. GetByName (App_Isolators a) LinuxNamespacesName = Some i \<and>
            Isolator_Value i = LinuxNamespacesValue niso \<longrightarrow>
            (Validate mgr m \<noteq> None \<longleftrightarrow>
               (\<exists>ns \<in> set (RequiredNamespaces (Options mgr)).
                  ns \<notin> {''ipc'', ''net'', ''pid'', ''user'', ''uts''} \<or>
                  checks niso ns = Some LinuxNamespaceHost)))
       \<and> (GetByName (App_Isolators a) LinuxNamespacesName = None \<longrightarrow> Validate mgr m = None)"
proof (intro conjI allI impI)
  fix i niso
  assume "GetByName (App_Isolators a) LinuxNamespacesName = Some i \<and>
          Isolator_Value i = LinuxNamespacesValue niso"
  then have "Validate mgr m = Validate_loop niso (RequiredNamespaces (Options mgr))"
    using assms by (simp add: Validate_declared)
  then show "Validate mgr m \<noteq> None \<longleftrightarrow>
      (\<exists>ns \<in> set (RequiredNamespaces (Options mgr)).
         ns \<notin> {''ipc'', ''net'', ''pid'', ''user'', ''uts''} \<or>
         checks niso ns = Some LinuxNamespaceHost)"
    by (simp only: Validate_loop_fails_iff checks_None_iff)
next
  assume "GetByName (App_Isolators a) LinuxNamespacesName = None"
  then show "Validate mgr m = None"
    using assms by (rule Validate_omitted [rotated])
qed

theorem Validate_fails_iff_witness:
  "Validate (sample_manager [''net'', ''pid''])
     (sample_manifest (Some (sample_app
        [namespaces_isolator (isolated_namespaces\<lparr>Net := LinuxNamespaceHost\<rparr>)])))
     = Some (NamespaceRequired LinuxNamespacesName ''net'')
   \<and> Validate (sample_manager [''net'', ''pid''])
     (sample_manifest (Some (sample_app [namespaces_isolator isolated_namespaces]))) = None
   \<and> Validate (sample_manager [''net'', ''pid'']) (sample_manifest (Some (sample_app []))) = None"
  using Validate_fails_iff [of "sample_manifest (Some (sample_app
        [namespaces_isolator (isolated_namespaces\<lparr>Net := LinuxNamespaceHost\<rparr>)]))"
      "sample_app [namespaces_isolator (isolated_namespaces\<lparr>Net := LinuxNamespaceHost\<rparr>)]"
      "sample_manager [''net'', ''pid'']"]
    Validate_fails_iff [of "sample_manifest (Some (sample_app []))" "sample_app []"
      "sample_manager [''net'', ''pid'']"]
  by (simp add: sample_simps Validate_def checks_def)

text \<open>
  C4, as stated, fails: with the required kinds net and \<open>mnt\<close> and a manifest that
  shares the host's network namespace, the loop stops at net with the isolation-policy
  error and never reaches the unrecognised kind.
\<close>

theorem Validate_unrecognised_kind_counterexample:
  "ImageManifest_App (sample_manifest (Some (sample_app
        [namespaces_isolator (isolated_namespaces\<lparr>Net := LinuxNamespaceHost\<rparr>)]))) \<noteq> None
   \<and> ''mnt'' \<in> set (RequiredNamespaces (Options (sample_manager [''net'', ''mnt''])))
   \<and> ''mnt'' \<notin> {''ipc'', ''net'', ''pid'', ''user'', ''uts''}
   \<and> Validate (sample_manager [''net'', ''mnt''])
       (sample_manifest (Some (sample_app
          [namespaces_isolator (isolated_namespaces\<lparr>Net := LinuxNamespaceHost\<rparr>)])))
       = Some (NamespaceRequired LinuxNamespacesName ''net'')
   \<and> Validate (sample_manager [''net'', ''mnt''])
       (sample_manifest (Some (sample_app
          [namespaces_isolator (isolated_namespaces\<lparr>Net := LinuxNamespaceHost\<rparr>)])))
       \<noteq> Some InternalServerError"
  by (simp add: sample_simps Validate_def checks_def)

text \<open>
  The loop up to the first kind \<open>ns\<close> that \<open>checks\<close> does not know, all kinds before
  it being known.
\<close>

lemma Validate_first_unrecognised:
  assumes app: "ImageManifest_App m = Some a"
    and iso: "GetByName (App_Isolators a) LinuxNamespacesName = Some i"
    and val: "Isolator_Value i = LinuxNamespacesValue niso"
    and req: "RequiredNamespaces (Options mgr) = pre @ ns # post"
    and pre: "set pre \<subseteq> {''ipc'', ''net'', ''pid'', ''user'', ''uts''}"
    and ns: "ns \<notin> {''ipc'', ''net'', ''pid'', ''user'', ''uts''}"
  shows "Validate mgr m \<noteq> None
       \<and> (Validate mgr m = Some InternalServerError \<longleftrightarrow>
            (\<forall>k \<in> set pre. checks niso k \<noteq> Some LinuxNamespaceHost))
       \<and> ((\<exists>k \<in> set pre. checks niso k = Some LinuxNamespaceHost) \<longrightarrow>
            (\<exists>k \<in> set pre. Validate mgr m = Some (NamespaceRequired LinuxNamespacesName k)))"
proof -
  have V: "Validate mgr m = Validate_loop niso (pre @ ns # post)"
    using app iso val req by (simp add: Validate_declared)
  have none: "checks niso ns = None"
    using ns checks_None_iff [of niso ns] by blast
  have some: "\<forall>k \<in> set pre. checks niso k \<noteq> None"
    using pre checks_None_iff [of niso] by blast
  have fails: "Validate mgr m \<noteq> None"
    unfolding V Validate_loop_fails_iff using none by auto
  have clean: "Validate mgr m = Some InternalServerError"
    if "\<forall>k \<in> set pre. checks niso k \<noteq> Some LinuxNamespaceHost"
  proof -
    have "\<forall>k \<in> set pre. \<exists>v. checks niso k = Some v \<and> v \<noteq> LinuxNamespaceHost"
      using some that by auto
    then have "Validate_loop niso (pre @ ns # post) = Validate_loop niso (ns # post)"
      by (rule Validate_loop_append)
    then show ?thesis using V none by simp
  qed
  have host: "\<exists>k \<in> set pre. Validate mgr m = Some (NamespaceRequired LinuxNamespacesName k)"
    if "\<exists>k \<in> set pre. checks niso k = Some LinuxNamespaceHost"
    unfolding V using some that by (rule Validate_loop_host_prefix)
  show ?thesis
  proof (cases "\<exists>k \<in> set pre. checks niso k = Some LinuxNamespaceHost")
    case True
    then obtain k where "k \<in> set pre"
      and "Validate mgr m = Some (NamespaceRequired LinuxNamespacesName k)"
      using host by blast
    then show ?thesis using True by auto
  next
    case False
    then have "Validate mgr m = Some InternalServerError"
      using clean by blast
    then show ?thesis using False by auto
  qed
qed

text \<open>
  C4 (amended): for a manifest with an App whose namespaces isolator carries
  \<open>LinuxNamespaces\<close> values and a required list that contains a kind outside ipc,
  net, pid, user, uts, \<open>Validate\<close> fails. The error is the internal one exactly when
  none of the kinds listed before the first such kind is set to host-shared; otherwise
  it is the isolation-policy error naming one of those earlier kinds. So the
  internal-error branch is reachable.
\<close>

theorem Validate_unrecognised_kind:
  assumes app: "ImageManifest_App m = Some a"
    and iso: "GetByName (App_Isolators a) LinuxNamespacesName = Some i"
    and val: "Isolator_Value i = LinuxNamespacesValue niso"
    and bad: "\<exists>ns \<in> set (RequiredNamespaces (Options mgr)).
               ns \<notin> {''ipc'', ''net'', ''pid'', ''user'', ''uts''}"
  shows "Validate mgr m \<noteq> None
       \<and> (Validate mgr m = Some InternalServerError \<longleftrightarrow>
            (\<forall>k \<in> set (takeWhile (\<lambda>k. k \<in> {''ipc'', ''net'', ''pid'', ''user'', ''uts''})
                           (RequiredNamespaces (Options mgr))).
               checks niso k \<noteq> Some LinuxNamespaceHost))
       \<and> ((\<exists>k \<in> set (takeWhile (\<lambda>k. k \<in> {''ipc'', ''net'', ''pid'', ''user'', ''uts''})
                           (RequiredNamespaces (Options mgr))).
               checks niso k = Some LinuxNamespaceHost) \<longrightarrow>
            (\<exists>k \<in> set (takeWhile (\<lambda>k. k \<in> {''ipc'', ''net'', ''pid'', ''user'', ''uts''})
                           (RequiredNamespaces (Options mgr))).
               Validate mgr m = Some (NamespaceRequired LinuxNamespacesName k)))"
proof -
  let ?K = "\<lambda>k. k \<in> {''ipc'', ''net'', ''pid'', ''user'', ''uts''}"
  let ?R = "RequiredNamespaces (Options mgr)"
  have rest: "dropWhile ?K ?R \<noteq> []"
    using bad by (simp only: dropWhile_eq_Nil_conv) blast
  then have first: "\<not> ?K (hd (dropWhile ?K ?R))"
    by (rule hd_dropWhile)
  have "?R = takeWhile ?K ?R @ dropWhile ?K ?R"
    by simp
  then have split: "?R = takeWhile ?K ?R @ hd (dropWhile ?K ?R) # tl (dropWhile ?K ?R)"
    using rest by simp
  have pre: "set (takeWhile ?K ?R) \<subseteq> {''ipc'', ''net'', ''pid'', ''user'', ''uts''}"
    using set_takeWhileD [of _ ?K ?R] by blast
  show ?thesis
    using Validate_first_unrecognised [OF app iso val split pre first] .
qed

theorem Validate_unrecognised_kind_witness:
  "Validate (sample_manager [''pid'', ''mnt'', ''net''])
     (sample_manifest (Some (sample_app
        [namespaces_isolator (isolated_namespaces\<lparr>Net := LinuxNamespaceHost\<rparr>)])))
     = Some InternalServerError"
  using Validate_unrecognised_kind [where
      m = "sample_manifest (Some (sample_app
        [namespaces_isolator (isolated_namespaces\<lparr>Net := LinuxNamespaceHost\<rparr>)]))"
      and a = "sample_app [namespaces_isolator (isolated_namespaces\<lparr>Net := LinuxNamespaceHost\<rparr>)]"
      and i = "namespaces_isolator (isolated_namespaces\<lparr>Net := LinuxNamespaceHost\<rparr>)"
      and niso = "isolated_namespaces\<lparr>Net := LinuxNamespaceHost\<rparr>"
      and mgr = "sample_manager [''pid'', ''mnt'', ''net'']"]
  by (simp add: sample_simps checks_def)

section \<open>Properties of admission\<close>


lemma Create_Validate_error:
  "Validate manager m = Some err \<Longrightarrow> Create D manager u name m h = (Inl err, manager)"
  by (simp add: Create_def)

lemma Create_NewHash_error:
  "Validate manager m = None \<Longrightarrow> types_NewHash D h = Inl err \<Longrightarrow>
   Create D manager u name m h = (Inl err, manager)"
  by (simp add: Create_def)

lemma Create_name_error:
  "Validate manager m = None \<Longrightarrow> types_NewHash D h = Inr hash \<Longrightarrow>
   convertACIdentifierToACName D (ImageManifest_Name m) = Inl err \<Longrightarrow>
   Create D manager u [] m h = (Inl err, manager)"
  by (simp add: Create_def)

lemma Create_error_cases:
  assumes "fst (Create D manager u name m h) = Inl e"
  shows "Validate manager m = Some e
       \<or> (Validate manager m = None \<and> types_NewHash D h = Inl e)
       \<or> (Validate manager m = None \<and> (\<exists>hash. types_NewHash D h = Inr hash) \<and> name = [] \<and>
           convertACIdentifierToACName D (ImageManifest_Name m) = Inl e)"
  using assms
  by (auto simp: Create_def Let_def split: option.splits sum.splits if_splits)

text \<open>
  C3: whenever \<open>Create\<close> returns an error, the manager it leaves is the manager it
  was given, so the registry holds what it held before and nothing else has changed;
  and the error is the one of \<open>Validate\<close>, the one of the hash parser, or, for a blank
  name, the one of the name normaliser.
\<close>

theorem Create_error_leaves_manager:
  assumes "fst (Create D manager u name m h) = Inl e"
  shows "snd (Create D manager u name m h) = manager
       \<and> containers (snd (Create D manager u name m h)) = containers manager
       \<and> (Validate manager m = Some e
          \<or> types_NewHash D h = Inl e
          \<or> (name = [] \<and> convertACIdentifierToACName D (ImageManifest_Name m) = Inl e))"
proof -
  from Create_error_cases [OF assms]
  consider "Validate manager m = Some e"
    | "Validate manager m = None" "types_NewHash D h = Inl e"
    | hash where "Validate manager m = None" "types_NewHash D h = Inr hash" "name = []"
        "convertACIdentifierToACName D (ImageManifest_Name m) = Inl e"
    by auto
  then show ?thesis
  proof cases
    case 1
    then show ?thesis by (simp add: Create_Validate_error)
  next
    case 2
    then show ?thesis by (simp add: Create_NewHash_error)
  next
    case 3
    then show ?thesis by (simp add: Create_name_error)
  qed
qed

theorem Create_error_leaves_manager_witness:
  "Create sample_deps (sample_manager [''net'']) ''u1'' ''web''
     (sample_manifest (Some (sample_app
        [namespaces_isolator (isolated_namespaces\<lparr>Net := LinuxNamespaceHost\<rparr>)]))) ''sha512-abc''
     = (Inl (NamespaceRequired LinuxNamespacesName ''net''), sample_manager [''net''])
   \<and> Create sample_deps (sample_manager [''net'']) ''u1'' ''web''
     (sample_manifest (Some (sample_app []))) ''md5-abc''
     = (Inl (LibraryError ''badly formatted hash string''), sample_manager [''net''])
   \<and> Create sample_deps (sample_manager [''net'']) ''u1'' []
     ((sample_manifest (Some (sample_app [])))\<lparr>ImageManifest_Name := ''example.com/App''\<rparr>)
     ''sha512-abc''
     = (Inl (LibraryError ''invalid name''), sample_manager [''net''])"
  using Create_error_leaves_manager [of sample_deps "sample_manager [''net'']" "''u1''" "''web''"
      "sample_manifest (Some (sample_app
        [namespaces_isolator (isolated_namespaces\<lparr>Net := LinuxNamespaceHost\<rparr>)]))"
      "''sha512-abc''" "NamespaceRequired LinuxNamespacesName ''net''"]
  by (simp add: sample_simps Validate_def checks_def Create_def sample_deps_def
      sample_NewHash_def last_segment_def lower_alnum_def)

text \<open>
  C5: for a manifest without an App, \<open>Validate\<close> returns the missing-App error, and
  \<open>Create\<close> returns that error and leaves the manager, registry included, as it was.
\<close>

theorem Validate_MissingApp_Create:
  assumes "ImageManifest_App m = None"
  shows "Validate manager m = Some MissingApp
       \<and> Create D manager u name m h = (Inl MissingApp, manager)"
  using assms by (simp add: Validate_MissingApp Create_Validate_error)

theorem Validate_MissingApp_Create_witness:
  "Validate (sample_manager [''net'']) (sample_manifest None) = Some MissingApp
   \<and> Create sample_deps (sample_manager [''net'']) ''u1'' ''web'' (sample_manifest None)
        ''sha512-abc'' = (Inl MissingApp, sample_manager [''net''])"
  using Validate_MissingApp_Create [of "sample_manifest None" "sample_manager [''net'']"
      sample_deps "''u1''" "''web''" "''sha512-abc''"]
  by (simp add: sample_manifest_def)

text \<open>
  C2, as stated, fails: a manifest with an App and a well-formed hash is still turned
  away by the validation at the head of \<open>Create\<close> when its namespaces isolator shares
  a required namespace with the host; no name is derived and no container is returned.
\<close>

theorem Create_blank_name_counterexample:
  "ImageManifest_App (sample_manifest (Some (sample_app
        [namespaces_isolator (isolated_namespaces\<lparr>Net := LinuxNamespaceHost\<rparr>)]))) \<noteq> None
   \<and> types_NewHash sample_deps ''sha512-abc'' = Inr \<lparr>Hash_typ = ''sha512'', Hash_Val = ''abc''\<rparr>
   \<and> Create sample_deps (sample_manager [''net'']) ''u1'' []
       (sample_manifest (Some (sample_app
          [namespaces_isolator (isolated_namespaces\<lparr>Net := LinuxNamespaceHost\<rparr>)])))
       ''sha512-abc''
       = (Inl (NamespaceRequired LinuxNamespacesName ''net''), sample_manager [''net''])"
  by (simp add: sample_simps Validate_def checks_def Create_def sample_deps_def
      sample_NewHash_def)

text \<open>
  C2 (amended): for every image manifest that passes \<open>Validate\<close> (its App is then
  non-nil) and every well-formed image hash, \<open>Create\<close> with an empty name derives the
  name from the manifest's declared name. If the derivation fails, its error is
  returned and the manager is unchanged. Otherwise the container returned is
  registered under its UUID, and its pod manifest has exactly one runtime app: named
  by the derived name, with the manifest's App, and with an image descriptor made of
  the parsed hash, the declared name and the manifest's labels; the pod's annotations
  are the manifest's.
\<close>

theorem Create_blank_name:
  assumes valid: "Validate manager m = None"
    and hash: "types_NewHash D h = Inr hash"
  shows "ImageManifest_App m \<noteq> None
       \<and> (case convertACIdentifierToACName D (ImageManifest_Name m) of
            Inl err \<Rightarrow> Create D manager u [] m h = (Inl err, manager)
          | Inr n \<Rightarrow>
              (\<exists>c. Create D manager u [] m h =
                      (Inr c, manager\<lparr>containers := (containers manager)(u \<mapsto> c)\<rparr>)
                 \<and> uuid c = u
                 \<and> PodManifest_Apps (pod c) =
                     [\<lparr>RuntimeApp_Name = n,
                       RuntimeApp_App = ImageManifest_App m,
                       RuntimeApp_Image =
                         \<lparr>RuntimeImage_ID = hash,
                          RuntimeImage_Name = Some (ImageManifest_Name m),
                          RuntimeImage_Labels = ImageManifest_Labels m\<rparr>\<rparr>]
                 \<and> PodManifest_Annotations (pod c) = ImageManifest_Annotations m))"
proof -
  have app: "ImageManifest_App m \<noteq> None"
    using valid by (auto simp: Validate_def split: option.splits)
  show ?thesis
  proof (cases "convertACIdentifierToACName D (ImageManifest_Name m)")
    case (Inl err)
    then show ?thesis
      using app valid hash by (simp add: Create_name_error)
  next
    case (Inr n)
    then show ?thesis
      using app valid hash by (simp add: Create_def Let_def start_def)
  qed
qed

theorem Create_blank_name_witness:
  "\<exists>c. Create sample_deps (sample_manager [''net'']) ''u1'' []
          (sample_manifest (Some (sample_app [namespaces_isolator isolated_namespaces])))
          ''sha512-abc''
        = (Inr c, (sample_manager [''net''])\<lparr>containers := [''u1'' \<mapsto> c]\<rparr>)
      \<and> map RuntimeApp_Name (PodManifest_Apps (pod c)) = [''app'']
      \<and> map (RuntimeImage_ID \<circ> RuntimeApp_Image) (PodManifest_Apps (pod c))
          = [\<lparr>Hash_typ = ''sha512'', Hash_Val = ''abc''\<rparr>]
      \<and> map (RuntimeImage_Name \<circ> RuntimeApp_Image) (PodManifest_Apps (pod c))
          = [Some ''example.com/app'']
      \<and> PodManifest_Annotations (pod c) = [(''created-by'', ''kurma'')]"
proof -
  let ?m = "sample_manifest (Some (sample_app [namespaces_isolator isolated_namespaces]))"
  have valid: "Validate (sample_manager [''net'']) ?m = None"
    by (simp add: sample_simps Validate_def checks_def)
  have hash: "types_NewHash sample_deps ''sha512-abc''
      = Inr \<lparr>Hash_typ = ''sha512'', Hash_Val = ''abc''\<rparr>"
    by (simp add: sample_deps_def sample_NewHash_def)
  have name: "convertACIdentifierToACName sample_deps (ImageManifest_Name ?m) = Inr ''app''"
    by (simp add: sample_deps_def sample_manifest_def last_segment_def lower_alnum_def)
  from Create_blank_name [OF valid hash, of "''u1''"] name
  show ?thesis
    by (auto simp: sample_manifest_def sample_manager_def)
qed

section \<open>Properties of construction\<close>

text \<open>
  C6: \<open>NewManager\<close> asks \<open>cgroups.CheckCgroups\<close> first and, when that fails, returns
  the wrapped error, no manager, and a host on which nothing was created. It then calls
  \<open>cgroups.New\<close> with the parent name of the options and, when that fails, returns its
  error and no manager. Otherwise it returns a manager with an empty registry that
  holds the options, the cgroup and the two collaborators it was given.
\<close>

theorem NewManager_construction:
  "(cgroups_CheckCgroups D host = Some err \<longrightarrow>
      NewManager D im nm opts host = (Inl (FailedToCheckCgroups err), host))
   \<and> (cgroups_CheckCgroups D host = None \<and>
        cgroups_New D (ParentCgroupName opts) host = (Inl err, host') \<longrightarrow>
      NewManager D im nm opts host = (Inl err, host'))
   \<and> (cgroups_CheckCgroups D host = None \<and>
        cgroups_New D (ParentCgroupName opts) host = (Inr cg, host') \<longrightarrow>
      (\<exists>manager. NewManager D im nm opts host = (Inr manager, host')
         \<and> containers manager = Map.empty
         \<and> Options manager = opts
         \<and> cgroup manager = cg
         \<and> imageManager manager = im
         \<and> networkManager manager = nm))"
  by (simp add: NewManager_def)

theorem NewManager_construction_witness:
  "NewManager sample_deps () () (sample_options []) []
     = (Inl (FailedToCheckCgroups (LibraryError ''cgroups are not mounted'')), [])
   \<and> NewManager sample_deps () () ((sample_options [])\<lparr>ParentCgroupName := []\<rparr>)
       [''/sys/fs/cgroup'']
     = (Inl (LibraryError ''empty cgroup name''), [''/sys/fs/cgroup''])
   \<and> (\<exists>manager. NewManager sample_deps () () (sample_options []) [''/sys/fs/cgroup'']
         = (Inr manager, [''/sys/fs/cgroup/kurma'', ''/sys/fs/cgroup''])
        \<and> containers manager = Map.empty)"
proof -
  have unsupported: "NewManager sample_deps () () (sample_options []) []
      = (Inl (FailedToCheckCgroups (LibraryError ''cgroups are not mounted'')), [])"
    using NewManager_construction [where D = sample_deps and host = "[]" and im = "()"
        and nm = "()" and opts = "sample_options []"
        and err = "LibraryError ''cgroups are not mounted''"]
    by (simp add: sample_deps_def)
  have no_parent: "NewManager sample_deps () () ((sample_options [])\<lparr>ParentCgroupName := []\<rparr>)
        [''/sys/fs/cgroup'']
      = (Inl (LibraryError ''empty cgroup name''), [''/sys/fs/cgroup''])"
    using NewManager_construction [where D = sample_deps and host = "[''/sys/fs/cgroup'']"
        and im = "()" and nm = "()"
        and opts = "(sample_options [])\<lparr>ParentCgroupName := []\<rparr>"
        and err = "LibraryError ''empty cgroup name''" and host' = "[''/sys/fs/cgroup'']"]
    by (simp add: sample_deps_def sample_options_def)
  have ready: "\<exists>manager. NewManager sample_deps () () (sample_options []) [''/sys/fs/cgroup'']
         = (Inr manager, [''/sys/fs/cgroup/kurma'', ''/sys/fs/cgroup''])
        \<and> containers manager = Map.empty"
    using NewManager_construction [where D = sample_deps and host = "[''/sys/fs/cgroup'']"
        and im = "()" and nm = "()" and opts = "sample_options []"
        and cg = "CgroupHandle ''kurma''"
        and host' = "[''/sys/fs/cgroup/kurma'', ''/sys/fs/cgroup'']"]
    by (auto simp: sample_deps_def sample_options_def)
  show ?thesis
    using unsupported no_parent ready by blast
qed

section \<open>Properties of the registry\<close>

text \<open>
  C7: removing a container whose UUID is not a key of the registry leaves the manager
  as it is (and \<open>remove\<close> has no error to return), and removing a container a second
  time gives the manager the first removal gave.
\<close>

theorem remove_absent_idempotent:
  "(uuid container \<notin> dom (containers manager) \<longrightarrow> remove manager container = manager)
   \<and> remove (remove manager container) container = remove manager container"
  by (auto simp: remove_def domIff)

theorem remove_absent_idempotent_witness:
  "remove (sample_manager []) (sample_container ''u1'') = sample_manager []
   \<and> remove ((sample_manager [])\<lparr>containers := [''u1'' \<mapsto> sample_container ''u1'',
          ''u2'' \<mapsto> sample_container ''u2'']\<rparr>) (sample_container ''u1'')
      = (sample_manager [])\<lparr>containers := [''u2'' \<mapsto> sample_container ''u2'']\<rparr>"
  using remove_absent_idempotent [where container = "sample_container ''u1''"
      and manager = "sample_manager []"]
  by (auto simp: sample_manager_def sample_container_def remove_def fun_eq_iff)

section \<open>Properties of the directory swap\<close>

text \<open>
  C9: \<open>SwapDirectory\<close> runs the callback on the manager whose \<open>ContainerDirectory\<close>
  is the path supplied. Whether the callback returns or panics, the manager left
  behind is the one the callback left with \<open>ContainerDirectory\<close> set back to its value
  from before the call: the other three options are as the callback left them, and
  when the callback did not touch the options they are the options from before the
  call.
\<close>

theorem SwapDirectory_restores:
  assumes "f (manager\<lparr>Options := (Options manager)\<lparr>ContainerDirectory := containerDirectory\<rparr>\<rparr>)
             = (r, manager')"
  shows "ContainerDirectory (Options
           (manager\<lparr>Options := (Options manager)\<lparr>ContainerDirectory := containerDirectory\<rparr>\<rparr>))
           = containerDirectory
       \<and> SwapDirectory manager containerDirectory f =
           (r, manager'\<lparr>Options := (Options manager')
                 \<lparr>ContainerDirectory := ContainerDirectory (Options manager)\<rparr>\<rparr>)
       \<and> ContainerDirectory (Options (snd (SwapDirectory manager containerDirectory f)))
           = ContainerDirectory (Options manager)
       \<and> ParentCgroupName (Options (snd (SwapDirectory manager containerDirectory f)))
           = ParentCgroupName (Options manager')
       \<and> VolumeDirectory (Options (snd (SwapDirectory manager containerDirectory f)))
           = VolumeDirectory (Options manager')
       \<and> RequiredNamespaces (Options (snd (SwapDirectory manager containerDirectory f)))
           = RequiredNamespaces (Options manager')
       \<and> (Options manager' = (Options manager)\<lparr>ContainerDirectory := containerDirectory\<rparr> \<longrightarrow>
            Options (snd (SwapDirectory manager containerDirectory f)) = Options manager)"
  using assms by (simp add: SwapDirectory_def Let_def)

theorem SwapDirectory_restores_witness:
  "SwapDirectory (sample_manager []) ''/tmp/c''
      (\<lambda>m. (Panicked, m\<lparr>HostSocketFile := ContainerDirectory (Options m)\<rparr>))
    = (Panicked, (sample_manager [])\<lparr>HostSocketFile := ''/tmp/c''\<rparr>)
   \<and> SwapDirectory (sample_manager []) ''/tmp/c''
      (\<lambda>m. (Returned, m\<lparr>Options := (Options m)\<lparr>ContainerDirectory := ''/elsewhere''\<rparr>\<rparr>))
    = (Returned, sample_manager [])"
proof -
  let ?f = "\<lambda>m :: (unit, unit) Manager.
      (Panicked, m\<lparr>HostSocketFile := ContainerDirectory (Options m)\<rparr>)"
  let ?g = "\<lambda>m :: (unit, unit) Manager.
      (Returned, m\<lparr>Options := (Options m)\<lparr>ContainerDirectory := ''/elsewhere''\<rparr>\<rparr>)"
  have panicked: "SwapDirectory (sample_manager []) ''/tmp/c'' ?f
      = (Panicked, (sample_manager [])\<lparr>HostSocketFile := ''/tmp/c''\<rparr>)"
    using SwapDirectory_restores [where f = ?f and manager = "sample_manager []"
        and containerDirectory = "''/tmp/c''", OF refl]
    by (simp add: sample_manager_def sample_options_def)
  have returned: "SwapDirectory (sample_manager []) ''/tmp/c'' ?g = (Returned, sample_manager [])"
    using SwapDirectory_restores [where f = ?g and manager = "sample_manager []"
        and containerDirectory = "''/tmp/c''", OF refl]
    by (simp add: sample_manager_def sample_options_def)
  show ?thesis
    using panicked returned by simp
qed

section \<open>Properties of volume paths\<close>


lemma getVolumePath_invalid:
  "\<not> ValidACName_MatchString D name \<Longrightarrow>
   getVolumePath D manager name host = (Inl InvalidVolumeName, host)"
  by (simp add: getVolumePath_def)

lemma getVolumePath_valid:
  "ValidACName_MatchString D name \<Longrightarrow>
   os_Mkdir D (filepath_Join D (VolumeDirectory (Options manager)) name) 493 host = (r, host') \<Longrightarrow>
   getVolumePath D manager name host =
     (case r of
        None \<Rightarrow> Inr (filepath_Join D (VolumeDirectory (Options manager)) name)
      | Some err \<Rightarrow>
          if os_IsExist err then Inr (filepath_Join D (VolumeDirectory (Options manager)) name)
          else Inl err,
      host')"
  by (simp add: getVolumePath_def Let_def split: option.splits)

text \<open>
  C8, as stated, fails: for a valid name \<open>getVolumePath\<close> returns the error of
  \<open>os.Mkdir\<close> instead of the path when the directory cannot be created for a reason
  other than its being there already; here the volume directory itself is missing.
\<close>

theorem getVolumePath_resolution_counterexample:
  "ValidACName_MatchString sample_deps ''data''
   \<and> getVolumePath sample_deps (sample_manager []) ''data'' []
     = (Inl (PathError ''mkdir'' ''/var/kurma/volumes/data'' ENOENT), [])"
  by (simp add: getVolumePath_def sample_deps_def sample_manager_def sample_options_def
      lower_alnum_def parent_dir_def)

text \<open>
  C8 (amended): for a volume name that matches the grammar, \<open>getVolumePath\<close> returns
  the join of the volume directory and the name when \<open>os.Mkdir\<close> succeeds or fails
  with an already-exists error, and otherwise returns the error of \<open>os.Mkdir\<close>. When a
  call has returned a path and the directory is then found to exist already, a second
  call with the same name succeeds with the same path. For a name that fails the
  grammar it returns an error and leaves the host as it is.
\<close>

theorem getVolumePath_resolution:
  "(ValidACName_MatchString D name \<and>
    os_Mkdir D (filepath_Join D (VolumeDirectory (Options manager)) name) 493 host = (r, host') \<longrightarrow>
      getVolumePath D manager name host =
        (case r of
           None \<Rightarrow> Inr (filepath_Join D (VolumeDirectory (Options manager)) name)
         | Some err \<Rightarrow>
             if os_IsExist err
             then Inr (filepath_Join D (VolumeDirectory (Options manager)) name)
             else Inl err,
         host'))
   \<and> (ValidACName_MatchString D name \<and>
      getVolumePath D manager name host = (Inr p, host_first) \<and>
      os_Mkdir D p 493 host_first = (Some already, host_second) \<and> os_IsExist already \<longrightarrow>
        filepath_Join D (VolumeDirectory (Options manager)) name = p \<and>
        getVolumePath D manager name host_first = (Inr p, host_second))
   \<and> (\<not> ValidACName_MatchString D name \<longrightarrow>
        getVolumePath D manager name host = (Inl InvalidVolumeName, host))"
proof (intro conjI impI)
  assume "ValidACName_MatchString D name \<and>
    os_Mkdir D (filepath_Join D (VolumeDirectory (Options manager)) name) 493 host = (r, host')"
  then show "getVolumePath D manager name host =
        (case r of
           None \<Rightarrow> Inr (filepath_Join D (VolumeDirectory (Options manager)) name)
         | Some err \<Rightarrow>
             if os_IsExist err
             then Inr (filepath_Join D (VolumeDirectory (Options manager)) name)
             else Inl err,
         host')"
    by (simp add: getVolumePath_valid)
next
  assume a: "ValidACName_MatchString D name \<and>
      getVolumePath D manager name host = (Inr p, host_first) \<and>
      os_Mkdir D p 493 host_first = (Some already, host_second) \<and> os_IsExist already"
  then show p: "filepath_Join D (VolumeDirectory (Options manager)) name = p"
    by (auto simp: getVolumePath_def Let_def split: prod.splits option.splits if_splits)
  from a p show "getVolumePath D manager name host_first = (Inr p, host_second)"
    by (simp add: getVolumePath_valid)
next
  assume "\<not> ValidACName_MatchString D name"
  then show "getVolumePath D manager name host = (Inl InvalidVolumeName, host)"
    by (rule getVolumePath_invalid)
qed

theorem getVolumePath_resolution_witness:
  "getVolumePath sample_deps (sample_manager []) ''data'' [''/var/kurma/volumes'']
     = (Inr ''/var/kurma/volumes/data'', [''/var/kurma/volumes/data'', ''/var/kurma/volumes''])
   \<and> getVolumePath sample_deps (sample_manager []) ''data''
       [''/var/kurma/volumes/data'', ''/var/kurma/volumes'']
     = (Inr ''/var/kurma/volumes/data'', [''/var/kurma/volumes/data'', ''/var/kurma/volumes''])
   \<and> getVolumePath sample_deps (sample_manager []) ''da/ta'' [''/var/kurma/volumes'']
     = (Inl InvalidVolumeName, [''/var/kurma/volumes''])"
proof -
  let ?dirs = "[''/var/kurma/volumes'']"
  let ?p = "''/var/kurma/volumes/data''"
  let ?M = "sample_manager [] :: (unit, unit) Manager"
  have valid: "ValidACName_MatchString sample_deps ''data''"
    by (simp add: sample_deps_def lower_alnum_def)
  have invalid: "\<not> ValidACName_MatchString sample_deps ''da/ta''"
    by (simp add: sample_deps_def lower_alnum_def)
  have join: "filepath_Join sample_deps (VolumeDirectory (Options ?M)) ''data'' = ?p"
    by (simp add: sample_deps_def sample_manager_def sample_options_def)
  have mkdir1: "os_Mkdir sample_deps ?p 493 ?dirs = (None, ?p # ?dirs)"
    by (simp add: sample_deps_def parent_dir_def)
  have mkdir2: "os_Mkdir sample_deps ?p 493 (?p # ?dirs)
      = (Some (PathError ''mkdir'' ?p EEXIST), ?p # ?dirs)"
    by (simp add: sample_deps_def)
  note res = getVolumePath_resolution [where D = sample_deps and manager = ?M]
  have first: "getVolumePath sample_deps ?M ''data'' ?dirs = (Inr ?p, ?p # ?dirs)"
    using res [where name = "''data''" and host = ?dirs and r = None and host' = "?p # ?dirs",
        THEN conjunct1] valid mkdir1
    unfolding join by simp
  have second: "getVolumePath sample_deps ?M ''data'' (?p # ?dirs) = (Inr ?p, ?p # ?dirs)"
    using res [where name = "''data''" and host = ?dirs and p = ?p and host_first = "?p # ?dirs"
        and already = "PathError ''mkdir'' ?p EEXIST" and host_second = "?p # ?dirs",
        THEN conjunct2, THEN conjunct1] valid first mkdir2
    by (simp add: join)
  have third: "getVolumePath sample_deps ?M ''da/ta'' ?dirs = (Inl InvalidVolumeName, ?dirs)"
    using res [where name = "''da/ta''" and host = ?dirs, THEN conjunct2, THEN conjunct2] invalid
    by simp
  show ?thesis
    using first second third by simp
qed

section \<open>Properties of random names\<close>


declare random_loop.simps [simp del]

lemma length_alphaNumericalCharacters: "length alphaNumericalCharacters = 62"
  by (simp add: alphaNumericalCharacters_def)

lemma distinct_alphaNumericalCharacters: "distinct alphaNumericalCharacters"
  by (simp add: alphaNumericalCharacters_def)

lemma length_random_loop: "length (random_loop i b) = length b"
proof (induction i b rule: random_loop.induct)
  case (1 i b)
  show ?case
  proof (cases "i < length b")
    case True
    with 1 show ?thesis by (subst random_loop.simps) simp
  next
    case False
    then show ?thesis by (subst random_loop.simps) simp
  qed
qed

lemma nth_random_loop:
  "j < length b \<Longrightarrow>
   random_loop i b ! j =
     (if i \<le> j
      then byte_at alphaNumericalCharacters
             (unat ((b ! j) mod of_nat (length alphaNumericalCharacters)))
      else b ! j)"
proof (induction i b rule: random_loop.induct)
  case (1 i b)
  show ?case
  proof (cases "i < length b")
    case True
    consider "j < i" | "j = i" | "i < j" by arith
    then show ?thesis
    proof cases
      case 1
      with True "1.IH" "1.prems" show ?thesis
        by (subst random_loop.simps) (simp add: nth_list_update)
    next
      case 2
      with True "1.IH" "1.prems" show ?thesis
        by (subst random_loop.simps) (simp add: nth_list_update)
    next
      case 3
      with True "1.IH" "1.prems" show ?thesis
        by (subst random_loop.simps) (simp add: nth_list_update)
    qed
  next
    case False
    with 1 show ?thesis by (subst random_loop.simps) simp
  qed
qed

lemma char_of_byte_at:
  "i < length s \<Longrightarrow> char_of (unat (byte_at s i)) = s ! i"
proof -
  have "unat (of_char c :: 8 word) = of_char c" for c
  proof -
    have "(of_char c :: 8 word) = of_nat (of_char c)"
      by (simp add: of_nat_of_char)
    moreover have "(of_char c :: nat) < 256"
      by simp
    ultimately show ?thesis
      by (simp add: unat_of_nat)
  qed
  then show ?thesis by (simp add: byte_at_def)
qed

lemma index_below: "unat ((w :: 8 word) mod of_nat (length alphaNumericalCharacters)) < 62"
  by (simp add: length_alphaNumericalCharacters unat_mod)

lemma random_loop_alphabet:
  assumes "c \<in> set (string_of_bytes (random_loop 0 b))"
  shows "c \<in> set alphaNumericalCharacters"
proof -
  from assms obtain j where j: "j < length b"
    and c: "c = char_of (unat (random_loop 0 b ! j))"
    by (auto simp: string_of_bytes_def in_set_conv_nth length_random_loop)
  let ?k = "unat ((b ! j) mod of_nat (length alphaNumericalCharacters))"
  have k: "?k < length alphaNumericalCharacters"
    using index_below [of "b ! j"] by (simp add: length_alphaNumericalCharacters)
  have "c = alphaNumericalCharacters ! ?k"
    using j c k by (simp add: nth_random_loop char_of_byte_at)
  then show ?thesis using k by simp
qed

text \<open>
  C10: for every non-negative \<open>n\<close>, whatever bytes the random source delivers,
  \<open>random n\<close> returns a string of length \<open>min n 32\<close> all of whose characters are
  among the 62 distinct characters of \<open>alphaNumericalCharacters\<close>; so it is never
  longer than 32, and for \<open>n\<close> up to 32 it has exactly the length asked for.
\<close>

theorem random_length_alphabet:
  assumes "0 \<le> n"
  shows "\<exists>s. random rnd n = Some s
          \<and> length s = min (nat n) 32
          \<and> set s \<subseteq> set alphaNumericalCharacters
          \<and> length alphaNumericalCharacters = 62
          \<and> distinct alphaNumericalCharacters"
proof -
  let ?n = "if n > 32 then 32 else n"
  let ?s = "string_of_bytes (random_loop 0 (rand_Read rnd (replicate (nat ?n) 0)))"
  have "random rnd n = Some ?s"
    using assms by (simp add: random_def Let_def)
  moreover have "length ?s = min (nat n) 32"
    using assms by (simp add: string_of_bytes_def length_random_loop rand_Read_def)
  moreover have "set ?s \<subseteq> set alphaNumericalCharacters"
    using random_loop_alphabet by blast
  ultimately show ?thesis
    using length_alphaNumericalCharacters distinct_alphaNumericalCharacters by blast
qed

theorem random_length_alphabet_witness:
  "random (\<lambda>i. 200) 3 = Some ''EEE'' \<and> (\<exists>s. random (\<lambda>i. of_nat (7 * i)) 40 = Some s \<and> length s = 32)"
proof -
  have "random (\<lambda>i. 200) 3 = Some ''EEE''"
    by code_simp
  moreover have "\<exists>s. random (\<lambda>i. of_nat (7 * i)) 40 = Some s \<and> length s = 32"
    using random_length_alphabet [of 40 "\<lambda>i. of_nat (7 * i)"] by auto
  ultimately show ?thesis by simp
qed

end
